theory Spec2Isabelle
  imports Main
begin

section \<open>The two tables and the store\<close>

text \<open>
  The service keeps its state in two PostgreSQL tables. A row of \<open>trains\<close> is a resource
  with its capacity \<open>total_seats\<close>; a row of \<open>bookings\<close> is a grant. The columns are the
  ones the statements of \<open>api.py\<close> name; \<open>t_id\<close> and \<open>b_id\<close> are the \<open>id\<close> columns
  of the two tables, named after the aliases \<open>t\<close> and \<open>b\<close> of the queries.
\<close>

record train =
  t_id :: int
  train_number :: string
  source :: string
  destination :: string
  total_seats :: int

record booking =
  b_id :: int
  user_id :: int
  train_id :: int
  seat_number :: int
  booking_date :: nat

text \<open>
  Modelled from the spec: the schema of the tables is not part of the source. The
  identifier of a booking is assigned by the server (the \<open>INSERT\<close> of \<open>book_seat\<close> gives no
  \<open>id\<close> and reads it back with \<open>RETURNING\<close>); it is modelled as a sequence,
  \<open>bookings_id_seq\<close> holding the last value handed out.
\<close>

record database =
  trains :: "train list"
  bookings :: "booking list"
  bookings_id_seq :: int

section \<open>Exceptions and the environment of one request\<close>

text \<open>
  \<open>HTTPException\<close> is the exception of the web framework, with its status code and
  detail; \<open>OtherException\<close> is any other Python exception (a \<open>psycopg2\<close> error), kept by
  the text \<open>str\<close> gives for it.
\<close>

datatype exn =
  HTTPException (status_code: int) (detail: string)
| OtherException string

text \<open>
  What one request meets outside the code: how the framework renders an
  \<open>HTTPException\<close> under \<open>str\<close> (\<open>exception_str\<close>, a function of status code and
  detail), whether \<open>psycopg2.connect\<close> raises, whether the n-th \<open>cursor.execute\<close> of the
  request raises, whether \<open>conn.commit\<close> raises (the transaction is then not committed),
  and the value of \<open>NOW()\<close>.
\<close>

record env =
  exception_str :: "int \<Rightarrow> string \<Rightarrow> string"
  connect_error :: "exn option"
  execute_error :: "nat \<Rightarrow> exn option"
  commit_error :: "exn option"
  now :: nat

definition str_exn :: "env \<Rightarrow> exn \<Rightarrow> string" where
  "str_exn env e =
     (case e of HTTPException s d \<Rightarrow> exception_str env s d | OtherException m \<Rightarrow> m)"

definition get_db_connection :: "env \<Rightarrow> exn + unit" where
  "get_db_connection env =
     (case connect_error env of
        None \<Rightarrow> Inr ()
      | Some e \<Rightarrow> Inl (HTTPException 500 (''Database connection failed: '' @ str_exn env e)))"

section \<open>The statements of \<open>book_seat\<close>\<close>

definition select_train :: "database \<Rightarrow> int \<Rightarrow> train option" where
  \<comment> \<open>\<open>SELECT id, total_seats FROM trains WHERE id = %s FOR UPDATE\<close>, then \<open>fetchone\<close>\<close>
  "select_train db i = find (\<lambda>t. t_id t = i) (trains db)"

definition count_bookings :: "database \<Rightarrow> int \<Rightarrow> int" where
  \<comment> \<open>\<open>SELECT COUNT(*) FROM bookings WHERE train_id = %s\<close>\<close>
  "count_bookings db i = int (length (filter (\<lambda>b. train_id b = i) (bookings db)))"

definition insert_booking :: "env \<Rightarrow> database \<Rightarrow> int \<Rightarrow> int \<Rightarrow> int \<Rightarrow> booking \<times> database" where
  \<comment> \<open>\<open>INSERT INTO bookings (user_id, train_id, seat_number, booking_date) ... RETURNING ...\<close>\<close>
  "insert_booking env db uid tid seat =
     (let new_id = bookings_id_seq db + 1;
          row = \<lparr>b_id = new_id, user_id = uid, train_id = tid, seat_number = seat,
                 booking_date = now env\<rparr>
      in (row, db\<lparr>bookings := bookings db @ [row], bookings_id_seq := new_id\<rparr>))"

definition rollback :: "database \<Rightarrow> database \<Rightarrow> database" where
  \<comment> \<open>\<open>conn.rollback()\<close>, taken to succeed: the rows go back to the committed state; a
      sequence is not rolled back\<close>
  "rollback committed tx = committed\<lparr>bookings_id_seq := bookings_id_seq tx\<rparr>"

definition book_seat_try :: "env \<Rightarrow> database \<Rightarrow> int \<Rightarrow> int \<Rightarrow> int \<Rightarrow> (exn + booking) \<times> database" where
  \<comment> \<open>the body of the \<open>try\<close>: what it raises or the committed row, and the state of the transaction\<close>
  "book_seat_try env db uid tid seat =
     (case execute_error env 0 of
        Some e \<Rightarrow> (Inl e, db)
      | None \<Rightarrow>
     (case select_train db tid of
        None \<Rightarrow> (Inl (HTTPException 404 ''Train not found''), db)
      | Some train \<Rightarrow>
     (case execute_error env 1 of
        Some e \<Rightarrow> (Inl e, db)
      | None \<Rightarrow>
     (if count_bookings db tid \<ge> total_seats train
      then (Inl (HTTPException 400 ''No seats available''), db)
      else
     (case execute_error env 2 of
        Some e \<Rightarrow> (Inl e, db)
      | None \<Rightarrow>
     (case insert_booking env db uid tid seat of
        (new_booking, tx) \<Rightarrow>
     (case commit_error env of
        Some e \<Rightarrow> (Inl e, tx)
      | None \<Rightarrow> (Inr new_booking, tx))))))))"

definition book_seat :: "env \<Rightarrow> database \<Rightarrow> int \<Rightarrow> int \<Rightarrow> int \<Rightarrow> (exn + string \<times> booking) \<times> database" where
  \<comment> \<open>\<open>POST /bookings\<close>: the response or the exception that leaves the handler, and the store afterwards\<close>
  "book_seat env db uid tid seat =
     (case get_db_connection env of
        Inl e \<Rightarrow> (Inl e, db)
      | Inr _ \<Rightarrow>
     (case book_seat_try env db uid tid seat of
        (Inr new_booking, tx) \<Rightarrow> (Inr (''Booking successful'', new_booking), tx)
      | (Inl e, tx) \<Rightarrow> (Inl (HTTPException 400 (str_exn env e)), rollback db tx)))"

section \<open>The query of \<open>get_seat_availability\<close>\<close>

record availability_row =
  row_train :: train
  available_seats :: int

definition joined_rows :: "booking list \<Rightarrow> train \<Rightarrow> (train \<times> booking option) list" where
  \<comment> \<open>the rows of the left join for one train: one per matching booking, or one with a null booking\<close>
  "joined_rows bs t =
     (case filter (\<lambda>b. t_id t = train_id b) bs of
        [] \<Rightarrow> [(t, None)]
      | ms \<Rightarrow> map (\<lambda>b. (t, Some b)) ms)"

definition left_join_bookings :: "train list \<Rightarrow> booking list \<Rightarrow> (train \<times> booking option) list" where
  \<comment> \<open>\<open>FROM trains t LEFT JOIN bookings b ON t.id = b.train_id\<close>\<close>
  "left_join_bookings ts bs = concat (map (joined_rows bs) ts)"

definition count_b_id :: "(train \<times> booking option) list \<Rightarrow> int" where
  \<comment> \<open>\<open>COUNT(b.id)\<close>: the rows of the group whose \<open>b.id\<close> is not null\<close>
  "count_b_id rows = int (length (filter (\<lambda>r. snd r \<noteq> None) rows))"

definition group_by_t_id :: "(train \<times> booking option) list \<Rightarrow> availability_row list" where
  \<comment> \<open>\<open>GROUP BY t.id\<close> with the select list \<open>t.*, t.total_seats - COALESCE(COUNT(b.id), 0)\<close>;
      a group is never empty, its key being taken from the rows, and \<open>COUNT\<close> is never null\<close>
  "group_by_t_id rows =
     map (\<lambda>k. let grp = filter (\<lambda>r. t_id (fst r) = k) rows;
                   t = fst (hd grp)
               in \<lparr>row_train = t, available_seats = total_seats t - count_b_id grp\<rparr>)
         (remdups (map (\<lambda>r. t_id (fst r)) rows))"

definition availability_query :: "database \<Rightarrow> string \<Rightarrow> string \<Rightarrow> availability_row list" where
  "availability_query db src dst =
     group_by_t_id
       (filter (\<lambda>r. source (fst r) = src \<and> destination (fst r) = dst)
          (left_join_bookings (trains db) (bookings db)))"

definition get_seat_availability :: "env \<Rightarrow> database \<Rightarrow> string \<Rightarrow> string \<Rightarrow> exn + availability_row list" where
  \<comment> \<open>\<open>POST /availability\<close>: \<open>try\<close> with \<open>finally\<close> only, so an exception leaves as it is\<close>
  "get_seat_availability env db src dst =
     (case get_db_connection env of
        Inl e \<Rightarrow> Inl e
      | Inr _ \<Rightarrow>
     (case execute_error env 0 of
        Some e \<Rightarrow> Inl e
      | None \<Rightarrow> Inr (availability_query db src dst)))"

section \<open>The query of \<open>get_booking_details\<close>\<close>

record booking_details =
  details_booking :: booking
  details_train_number :: string
  details_source :: string
  details_destination :: string

definition join_trains :: "booking list \<Rightarrow> train list \<Rightarrow> (booking \<times> train) list" where
  \<comment> \<open>\<open>FROM bookings b JOIN trains t ON b.train_id = t.id\<close>\<close>
  "join_trains bs ts =
     concat (map (\<lambda>b. map (\<lambda>t. (b, t)) (filter (\<lambda>t. train_id b = t_id t) ts)) bs)"

definition booking_query :: "database \<Rightarrow> int \<Rightarrow> int \<Rightarrow> booking_details option" where
  \<comment> \<open>\<open>SELECT b.*, t.train_number, t.source, t.destination ... WHERE b.id = %s AND b.user_id = %s\<close>, then \<open>fetchone\<close>\<close>
  "booking_query db booking_id uid =
     (case filter (\<lambda>r. b_id (fst r) = booking_id \<and> user_id (fst r) = uid)
             (join_trains (bookings db) (trains db)) of
        [] \<Rightarrow> None
      | r # _ \<Rightarrow> Some \<lparr>details_booking = fst r, details_train_number = train_number (snd r),
                        details_source = source (snd r), details_destination = destination (snd r)\<rparr>)"

definition get_booking_details :: "env \<Rightarrow> database \<Rightarrow> int \<Rightarrow> int \<Rightarrow> exn + booking_details" where
  \<comment> \<open>\<open>GET /bookings/{booking_id}\<close> for the caller whose token holds \<open>user_id = uid\<close>\<close>
  "get_booking_details env db booking_id uid =
     (case get_db_connection env of
        Inl e \<Rightarrow> Inl e
      | Inr _ \<Rightarrow>
     (case execute_error env 0 of
        Some e \<Rightarrow> Inl e
      | None \<Rightarrow>
     (case booking_query db booking_id uid of
        None \<Rightarrow> Inl (HTTPException 404 ''Booking not found'')
      | Some booking \<Rightarrow> Inr booking)))"

section \<open>Invariants of the store\<close>

definition no_overbooking :: "database \<Rightarrow> bool" where
  \<comment> \<open>for every train, the bookings counted for it do not exceed its seats\<close>
  "no_overbooking db = list_all (\<lambda>t. count_bookings db (t_id t) \<le> total_seats t) (trains db)"

definition unique_train_ids :: "database \<Rightarrow> bool" where
  \<comment> \<open>\<open>trains.id\<close> is the primary key: the \<open>GROUP BY t.id\<close> of the availability query selects \<open>t.*\<close>\<close>
  "unique_train_ids db = distinct (map t_id (trains db))"

definition ids_from_sequence :: "database \<Rightarrow> bool" where
  \<comment> \<open>every booking got its identifier from the sequence\<close>
  "ids_from_sequence db = list_all (\<lambda>b. b_id b \<le> bookings_id_seq db) (bookings db)"

definition no_faults :: "env \<Rightarrow> bool" where
  \<comment> \<open>the store is reachable and raises nothing during the request\<close>
  "no_faults env =
     (connect_error env = None \<and> execute_error env 0 = None \<and> execute_error env 1 = None
      \<and> execute_error env 2 = None \<and> commit_error env = None)"

section \<open>Concrete environments and stores\<close>

fun digits :: "nat \<Rightarrow> string" where
  "digits n = (if n < 10 then [''0123456789'' ! n]
               else digits (n div 10) @ [''0123456789'' ! (n mod 10)])"

declare digits.simps [simp del]

definition status_colon_detail :: "int \<Rightarrow> string \<Rightarrow> string" where
  \<comment> \<open>one rendering of an \<open>HTTPException\<close>: the status code, a colon, the detail\<close>
  "status_colon_detail s d = digits (nat s) @ '': '' @ d"

definition ok_env :: env where
  "ok_env = \<lparr>exception_str = status_colon_detail, connect_error = None,
             execute_error = (\<lambda>_. None), commit_error = None, now = 0\<rparr>"

definition train_T2 :: train where
  "train_T2 = \<lparr>t_id = 2, train_number = ''T2'', source = ''Pune'',
               destination = ''Delhi'', total_seats = 2\<rparr>"

definition db_T2 :: database where
  \<comment> \<open>one train with two seats and no booking\<close>
  "db_T2 = \<lparr>trains = [train_T2], bookings = [], bookings_id_seq = 0\<rparr>"

definition booking_1 :: booking where
  "booking_1 = \<lparr>b_id = 1, user_id = 7, train_id = 2, seat_number = 5, booking_date = 0\<rparr>"

definition booking_2 :: booking where
  "booking_2 = \<lparr>b_id = 2, user_id = 8, train_id = 2, seat_number = 5, booking_date = 0\<rparr>"

definition db_T2_one :: database where
  "db_T2_one = \<lparr>trains = [train_T2], bookings = [booking_1], bookings_id_seq = 1\<rparr>"

definition db_T2_full :: database where
  "db_T2_full = \<lparr>trains = [train_T2], bookings = [booking_1, booking_2], bookings_id_seq = 2\<rparr>"

section \<open>The connection\<close>

text \<open>
  C10 (as amended). When \<open>psycopg2.connect\<close> raises, the caller receives status 500 whose
  detail is the fixed prefix followed by the text of the internal error, and \<open>book_seat\<close>
  passes that failure on unchanged, leaving the store as it was. Two internal errors give
  the same failure exactly when their texts are equal.
\<close>

theorem connection_failure_carries_error_text:
  "connect_error env = Some e \<Longrightarrow> connect_error env' = Some e' \<Longrightarrow>
     get_db_connection env
       = Inl (HTTPException 500 (''Database connection failed: '' @ str_exn env e))
   \<and> book_seat env db uid tid seat
       = (Inl (HTTPException 500 (''Database connection failed: '' @ str_exn env e)), db)
   \<and> (get_db_connection env = get_db_connection env' \<longleftrightarrow> str_exn env e = str_exn env' e')"
  by (simp add: get_db_connection_def book_seat_def)

theorem connection_failure_carries_error_text_witness:
  "get_db_connection (ok_env\<lparr>connect_error := Some (OtherException ''timeout expired'')\<rparr>)
     = Inl (HTTPException 500 ''Database connection failed: timeout expired'')
   \<and> book_seat (ok_env\<lparr>connect_error := Some (OtherException ''timeout expired'')\<rparr>) db_T2 7 2 5
     = (Inl (HTTPException 500 ''Database connection failed: timeout expired''), db_T2)"
  using connection_failure_carries_error_text
    [of "ok_env\<lparr>connect_error := Some (OtherException ''timeout expired'')\<rparr>"
        "OtherException ''timeout expired''"
        "ok_env\<lparr>connect_error := Some (OtherException ''timeout expired'')\<rparr>"
        "OtherException ''timeout expired''" db_T2 7 2 5]
  by (simp add: str_exn_def)

text \<open>
  C10 (as stated) fails: two different internal errors of the store reach the caller as
  two different failures.
\<close>

theorem connection_failure_not_opaque:
  "get_db_connection (ok_env\<lparr>connect_error := Some (OtherException ''timeout expired'')\<rparr>)
   \<noteq> get_db_connection
       (ok_env\<lparr>connect_error := Some (OtherException ''password authentication failed'')\<rparr>)"
  by (simp add: get_db_connection_def str_exn_def)

section \<open>What one call of \<open>book_seat\<close> does\<close>

lemma rollback_same [simp]: "rollback db db = db"
  by (simp add: rollback_def)

lemma rollback_trains [simp]: "trains (rollback db tx) = trains db"
  by (simp add: rollback_def)

lemma rollback_bookings [simp]: "bookings (rollback db tx) = bookings db"
  by (simp add: rollback_def)

lemma rollback_no_overbooking [simp]: "no_overbooking (rollback db tx) = no_overbooking db"
  by (simp add: no_overbooking_def rollback_def count_bookings_def)

lemma insert_booking_trains [simp]:
  "trains (snd (insert_booking env db uid tid seat)) = trains db"
  by (simp add: insert_booking_def Let_def)

lemma insert_booking_bookings:
  "bookings (snd (insert_booking env db uid tid seat))
     = bookings db @ [fst (insert_booking env db uid tid seat)]"
  by (simp add: insert_booking_def Let_def)

lemma insert_booking_row:
  "fst (insert_booking env db uid tid seat)
     = \<lparr>b_id = bookings_id_seq db + 1, user_id = uid, train_id = tid,
         seat_number = seat, booking_date = now env\<rparr>"
  by (simp add: insert_booking_def Let_def)

lemma insert_booking_seq [simp]:
  "bookings_id_seq (snd (insert_booking env db uid tid seat)) = bookings_id_seq db + 1"
  by (simp add: insert_booking_def Let_def)

lemma insert_booking_select [simp]:
  "select_train (snd (insert_booking env db uid tid seat)) i = select_train db i"
  by (simp add: select_train_def)

lemma insert_booking_count:
  "count_bookings (snd (insert_booking env db uid tid seat)) i
     = count_bookings db i + (if i = tid then 1 else 0)"
  by (simp add: count_bookings_def insert_booking_bookings insert_booking_row)

text \<open>The three ways a call can end: nothing written, written and rolled back, committed.\<close>

lemma book_seat_cases:
  "(\<exists>e. book_seat env db uid tid seat = (Inl e, db))
   \<or> (\<exists>e. book_seat env db uid tid seat
            = (Inl e, rollback db (snd (insert_booking env db uid tid seat))))
   \<or> ((\<exists>t. select_train db tid = Some t \<and> count_bookings db tid < total_seats t)
       \<and> book_seat env db uid tid seat
            = (Inr (''Booking successful'', fst (insert_booking env db uid tid seat)),
               snd (insert_booking env db uid tid seat)))"
  by (auto simp: book_seat_def book_seat_try_def split: sum.splits option.splits prod.splits)

lemma book_seat_success:
  assumes "book_seat env db uid tid seat = (Inr (m, g), db')"
  shows "\<exists>t. select_train db tid = Some t \<and> count_bookings db tid < total_seats t"
    and "m = ''Booking successful''"
    and "g = fst (insert_booking env db uid tid seat)"
    and "db' = snd (insert_booking env db uid tid seat)"
  using assms book_seat_cases [of env db uid tid seat] by auto

lemma book_seat_failure:
  assumes "book_seat env db uid tid seat = (Inl e, db')"
  shows "bookings db' = bookings db" and "trains db' = trains db"
  using assms book_seat_cases [of env db uid tid seat] by auto

lemma book_seat_no_faults:
  assumes "no_faults env" "select_train db tid = Some t" "count_bookings db tid < total_seats t"
  shows "book_seat env db uid tid seat =
           (Inr (''Booking successful'', fst (insert_booking env db uid tid seat)),
            snd (insert_booking env db uid tid seat))"
  using assms
  by (simp add: book_seat_def book_seat_try_def no_faults_def get_db_connection_def
           split: prod.splits)

lemma book_seat_full:
  assumes "connect_error env = None" "execute_error env 0 = None" "execute_error env 1 = None"
    "select_train db tid = Some t" "total_seats t \<le> count_bookings db tid"
  shows "book_seat env db uid tid seat =
           (Inl (HTTPException 400 (str_exn env (HTTPException 400 ''No seats available''))), db)"
  using assms
  by (simp add: book_seat_def book_seat_try_def get_db_connection_def)

subsection \<open>The primary key of \<open>trains\<close>\<close>

lemma select_train_unique:
  assumes "unique_train_ids db" "select_train db i = Some t'" "t \<in> set (trains db)" "t_id t = i"
  shows "t = t'"
proof -
  from assms(2) have "t' \<in> set (trains db)" "t_id t' = i"
    by (auto simp: select_train_def find_Some_iff)
  with assms(1,3,4) show ?thesis
    by (auto simp: unique_train_ids_def distinct_map dest: inj_onD)
qed

lemma select_train_member:
  assumes "unique_train_ids db" "t \<in> set (trains db)"
  shows "select_train db (t_id t) = Some t"
proof -
  from assms(2) obtain t' where t': "select_train db (t_id t) = Some t'"
    by (cases "select_train db (t_id t)") (auto simp: select_train_def find_None_iff)
  with assms show ?thesis using select_train_unique by blast
qed

lemma insert_booking_no_overbooking:
  assumes "unique_train_ids db" "no_overbooking db" "select_train db tid = Some t"
    "count_bookings db tid < total_seats t"
  shows "no_overbooking (snd (insert_booking env db uid tid seat))"
  unfolding no_overbooking_def list_all_iff
proof
  fix x assume x: "x \<in> set (trains (snd (insert_booking env db uid tid seat)))"
  then have xin: "x \<in> set (trains db)" by simp
  with assms(2) have le: "count_bookings db (t_id x) \<le> total_seats x"
    by (simp add: no_overbooking_def list_all_iff)
  show "count_bookings (snd (insert_booking env db uid tid seat)) (t_id x) \<le> total_seats x"
  proof (cases "t_id x = tid")
    case True
    with assms(1,3) xin have "x = t" using select_train_unique by blast
    with True assms(4) show ?thesis by (simp add: insert_booking_count)
  next
    case False
    with le show ?thesis by (simp add: insert_booking_count)
  qed
qed

subsection \<open>The concrete stores, evaluated\<close>

lemma no_faults_ok_env [simp]: "no_faults ok_env"
  by (simp add: no_faults_def ok_env_def)

lemma select_train_db_T2 [simp]: "select_train db_T2 2 = Some train_T2"
  by (simp add: select_train_def db_T2_def train_T2_def)

lemma select_train_db_T2_one [simp]: "select_train db_T2_one 2 = Some train_T2"
  by (simp add: select_train_def db_T2_one_def train_T2_def)

lemma count_bookings_db_T2 [simp]: "count_bookings db_T2 2 = 0"
  by (simp add: count_bookings_def db_T2_def)

lemma unique_train_ids_db_T2 [simp]: "unique_train_ids db_T2"
  by (simp add: unique_train_ids_def db_T2_def)

lemma unique_train_ids_db_T2_one [simp]: "unique_train_ids db_T2_one"
  by (simp add: unique_train_ids_def db_T2_one_def)

lemma no_overbooking_db_T2_one: "no_overbooking db_T2_one"
  by (simp add: no_overbooking_def count_bookings_def db_T2_one_def train_T2_def booking_1_def)

lemma book_seat_db_T2:
  "book_seat ok_env db_T2 7 2 5 = (Inr (''Booking successful'', booking_1), db_T2_one)"
  by (simp add: book_seat_def book_seat_try_def get_db_connection_def ok_env_def
      select_train_def count_bookings_def insert_booking_def Let_def db_T2_def db_T2_one_def
      train_T2_def booking_1_def)

lemma book_seat_db_T2_one:
  "book_seat ok_env db_T2_one 8 2 5 = (Inr (''Booking successful'', booking_2), db_T2_full)"
  by (simp add: book_seat_def book_seat_try_def get_db_connection_def ok_env_def
      select_train_def count_bookings_def insert_booking_def Let_def db_T2_one_def db_T2_full_def
      train_T2_def booking_1_def booking_2_def)

lemma book_seat_db_T2_full:
  "book_seat ok_env db_T2_full 9 2 6
     = (Inl (HTTPException 400 ''400: No seats available''), db_T2_full)"
  by (simp add: book_seat_def book_seat_try_def get_db_connection_def ok_env_def
      select_train_def count_bookings_def db_T2_full_def str_exn_def status_colon_detail_def
      digits.simps train_T2_def booking_1_def booking_2_def rollback_def)

section \<open>No overbooking\<close>

text \<open>
  C1. For a store in which no train is overbooked (and \<open>trains.id\<close> is a key), any call of
  \<open>book_seat\<close>, whatever it meets and however it ends, leaves a store in which no train is
  overbooked; and a call that commits a booking started from a state where the count for
  that train was strictly below its seats, and raises that count by exactly one.
\<close>

theorem book_seat_preserves_no_overbooking:
  assumes "unique_train_ids db" "no_overbooking db" "book_seat env db uid tid seat = (r, db')"
  shows "no_overbooking db' \<and> unique_train_ids db'
    \<and> (\<forall>m g. r = Inr (m, g) \<longrightarrow>
          (\<exists>t. select_train db tid = Some t \<and> count_bookings db tid < total_seats t
               \<and> count_bookings db' tid = count_bookings db tid + 1))"
  using book_seat_cases [of env db uid tid seat] assms
  by (auto simp: insert_booking_no_overbooking insert_booking_count unique_train_ids_def)

theorem book_seat_preserves_no_overbooking_witness:
  "unique_train_ids db_T2_one \<and> no_overbooking db_T2_one
   \<and> book_seat ok_env db_T2_one 8 2 5 = (Inr (''Booking successful'', booking_2), db_T2_full)
   \<and> no_overbooking db_T2_full \<and> unique_train_ids db_T2_full
   \<and> count_bookings db_T2_one 2 < total_seats train_T2
   \<and> count_bookings db_T2_full 2 = count_bookings db_T2_one 2 + 1"
proof -
  from book_seat_preserves_no_overbooking
         [OF unique_train_ids_db_T2_one no_overbooking_db_T2_one book_seat_db_T2_one]
    select_train_db_T2_one book_seat_db_T2_one no_overbooking_db_T2_one
  show ?thesis by simp
qed

section \<open>Filling a train\<close>

text \<open>
  C3. On a train with two seats and no booking, three calls in a row that meet no fault:
  the first two succeed with different identifiers; the third raises
  \<open>HTTPException 400 No seats available\<close> in the transaction and leaves the handler as
  status 400 with the text of that exception as its detail, the store unchanged; exactly
  the two bookings are then recorded for the train.
\<close>

theorem fill_up_capacity_two:
  assumes "no_faults env1" "no_faults env2" "no_faults env3"
    and "select_train db tid = Some t" "total_seats t = 2" "count_bookings db tid = 0"
    and "book_seat env1 db u1 tid s1 = (r1, db1)"
    and "book_seat env2 db1 u2 tid s2 = (r2, db2)"
    and "book_seat env3 db2 u3 tid s3 = (r3, db3)"
  shows "\<exists>g1 g2.
      r1 = Inr (''Booking successful'', g1) \<and> r2 = Inr (''Booking successful'', g2)
    \<and> b_id g1 \<noteq> b_id g2
    \<and> book_seat_try env3 db2 u3 tid s3 = (Inl (HTTPException 400 ''No seats available''), db2)
    \<and> r3 = Inl (HTTPException 400 (str_exn env3 (HTTPException 400 ''No seats available'')))
    \<and> db3 = db2
    \<and> filter (\<lambda>b. train_id b = tid) (bookings db3) = [g1, g2]"
proof -
  define g1 where "g1 = fst (insert_booking env1 db u1 tid s1)"
  define g2 where "g2 = fst (insert_booking env2 db1 u2 tid s2)"
  have "book_seat env1 db u1 tid s1
          = (Inr (''Booking successful'', g1), snd (insert_booking env1 db u1 tid s1))"
    unfolding g1_def using assms(1,4,5,6) by (intro book_seat_no_faults) auto
  with assms(7) have first: "r1 = Inr (''Booking successful'', g1)"
    and db1: "db1 = snd (insert_booking env1 db u1 tid s1)" by simp_all
  have sel1: "select_train db1 tid = Some t" and cnt1: "count_bookings db1 tid = 1"
    using assms(4,6) by (simp_all add: db1 insert_booking_count)
  have "book_seat env2 db1 u2 tid s2
          = (Inr (''Booking successful'', g2), snd (insert_booking env2 db1 u2 tid s2))"
    unfolding g2_def using assms(2,5) sel1 cnt1 by (intro book_seat_no_faults) auto
  with assms(8) have second: "r2 = Inr (''Booking successful'', g2)"
    and db2: "db2 = snd (insert_booking env2 db1 u2 tid s2)" by simp_all
  have sel2: "select_train db2 tid = Some t" and cnt2: "count_bookings db2 tid = 2"
    using sel1 cnt1 by (simp_all add: db2 insert_booking_count)
  have ids: "b_id g1 \<noteq> b_id g2"
    by (simp add: g1_def g2_def db1 insert_booking_row)
  have "book_seat env3 db2 u3 tid s3
         = (Inl (HTTPException 400 (str_exn env3 (HTTPException 400 ''No seats available''))), db2)"
    using assms(3,5) sel2 cnt2 by (intro book_seat_full [where t = t]) (auto simp: no_faults_def)
  with assms(9)
  have third: "r3 = Inl (HTTPException 400 (str_exn env3 (HTTPException 400 ''No seats available'')))"
    and db3: "db3 = db2" by simp_all
  have third_try:
    "book_seat_try env3 db2 u3 tid s3 = (Inl (HTTPException 400 ''No seats available''), db2)"
    using assms(3,5) sel2 cnt2 by (simp add: book_seat_try_def no_faults_def)
  have "filter (\<lambda>b. train_id b = tid) (bookings db) = []"
    using assms(6) by (simp add: count_bookings_def)
  then have rows: "filter (\<lambda>b. train_id b = tid) (bookings db3) = [g1, g2]"
    by (simp add: db3 db2 db1 g1_def g2_def insert_booking_bookings insert_booking_row)
  from first second ids third db3 third_try rows show ?thesis by blast
qed

theorem fill_up_capacity_two_witness:
  "no_faults ok_env \<and> select_train db_T2 2 = Some train_T2 \<and> total_seats train_T2 = 2
   \<and> count_bookings db_T2 2 = 0
   \<and> book_seat ok_env db_T2 7 2 5 = (Inr (''Booking successful'', booking_1), db_T2_one)
   \<and> book_seat ok_env db_T2_one 8 2 5 = (Inr (''Booking successful'', booking_2), db_T2_full)
   \<and> book_seat ok_env db_T2_full 9 2 6
        = (Inl (HTTPException 400 ''400: No seats available''), db_T2_full)
   \<and> b_id booking_1 \<noteq> b_id booking_2
   \<and> filter (\<lambda>b. train_id b = 2) (bookings db_T2_full) = [booking_1, booking_2]"
  using fill_up_capacity_two [OF no_faults_ok_env no_faults_ok_env no_faults_ok_env
      select_train_db_T2 _ count_bookings_db_T2 book_seat_db_T2 book_seat_db_T2_one
      book_seat_db_T2_full]
    book_seat_db_T2 book_seat_db_T2_one book_seat_db_T2_full
  by (simp add: train_T2_def)

section \<open>A failed call writes nothing\<close>

text \<open>
  C4. Whenever \<open>book_seat\<close> fails, for whatever reason (no connection, a statement or the
  commit raising, no such train, no seat left), the bookings of every train, and the
  trains, are exactly what they were before the call.
\<close>

theorem failed_book_seat_leaves_tables:
  "book_seat env db uid tid seat = (Inl e, db') \<Longrightarrow>
     bookings db' = bookings db \<and> trains db' = trains db"
  by (simp add: book_seat_failure)

theorem failed_book_seat_leaves_tables_witness:
  "book_seat (ok_env\<lparr>commit_error := Some (OtherException ''connection lost'')\<rparr>) db_T2 7 2 5
     = (Inl (HTTPException 400 ''connection lost''), db_T2\<lparr>bookings_id_seq := 1\<rparr>)
   \<and> bookings (db_T2\<lparr>bookings_id_seq := 1\<rparr>) = bookings db_T2
   \<and> trains (db_T2\<lparr>bookings_id_seq := 1\<rparr>) = trains db_T2"
proof -
  have run:
    "book_seat (ok_env\<lparr>commit_error := Some (OtherException ''connection lost'')\<rparr>) db_T2 7 2 5
       = (Inl (HTTPException 400 ''connection lost''), db_T2\<lparr>bookings_id_seq := 1\<rparr>)"
    by (simp add: book_seat_def book_seat_try_def get_db_connection_def ok_env_def
      select_train_def count_bookings_def insert_booking_def Let_def db_T2_def
      train_T2_def str_exn_def rollback_def)
  from failed_book_seat_leaves_tables [OF run] run show ?thesis by simp
qed

section \<open>An unknown train\<close>

text \<open>
  C5. Booking on train 9999 in a store that has no such train, whatever the rendering
  \<open>f\<close> of an \<open>HTTPException\<close>: the transaction raises \<open>HTTPException 404 Train not found\<close>,
  the handler of \<open>book_seat\<close> catches it and the caller receives status 400 with the text
  of that exception as detail. No booking is created.
\<close>

theorem unknown_train_reported_as_400:
  "book_seat_try (ok_env\<lparr>exception_str := f\<rparr>) db_T2 7 9999 5
     = (Inl (HTTPException 404 ''Train not found''), db_T2)
   \<and> book_seat (ok_env\<lparr>exception_str := f\<rparr>) db_T2 7 9999 5
     = (Inl (HTTPException 400 (f 404 ''Train not found'')), db_T2)"
  by (simp add: book_seat_def book_seat_try_def get_db_connection_def ok_env_def
      select_train_def db_T2_def train_T2_def str_exn_def)

section \<open>The same seat twice\<close>

text \<open>
  C9. On a train with at least two free seats, two calls in a row that meet no fault and
  give the same seat number, whatever that number is, both succeed: the store then holds
  two bookings with different identifiers and the same train and seat number.
\<close>

theorem same_seat_booked_twice:
  assumes "no_faults env1" "no_faults env2"
    and "select_train db tid = Some t" "count_bookings db tid + 2 \<le> total_seats t"
    and "book_seat env1 db u1 tid seat = (r1, db1)"
    and "book_seat env2 db1 u2 tid seat = (r2, db2)"
  shows "\<exists>g1 g2.
      r1 = Inr (''Booking successful'', g1) \<and> r2 = Inr (''Booking successful'', g2)
    \<and> b_id g1 \<noteq> b_id g2
    \<and> train_id g1 = tid \<and> train_id g2 = tid \<and> seat_number g1 = seat \<and> seat_number g2 = seat
    \<and> bookings db2 = bookings db @ [g1, g2]"
proof -
  define g1 where "g1 = fst (insert_booking env1 db u1 tid seat)"
  define g2 where "g2 = fst (insert_booking env2 db1 u2 tid seat)"
  have "book_seat env1 db u1 tid seat
          = (Inr (''Booking successful'', g1), snd (insert_booking env1 db u1 tid seat))"
    unfolding g1_def using assms(1,3,4) by (intro book_seat_no_faults) auto
  with assms(5) have first: "r1 = Inr (''Booking successful'', g1)"
    and db1: "db1 = snd (insert_booking env1 db u1 tid seat)" by simp_all
  have sel1: "select_train db1 tid = Some t"
    and cnt1: "count_bookings db1 tid = count_bookings db tid + 1"
    using assms(3) by (simp_all add: db1 insert_booking_count)
  have "book_seat env2 db1 u2 tid seat
          = (Inr (''Booking successful'', g2), snd (insert_booking env2 db1 u2 tid seat))"
    unfolding g2_def using assms(2,4) sel1 cnt1 by (intro book_seat_no_faults) auto
  with assms(6) have second: "r2 = Inr (''Booking successful'', g2)"
    and db2: "db2 = snd (insert_booking env2 db1 u2 tid seat)" by simp_all
  have fields: "b_id g1 \<noteq> b_id g2" "train_id g1 = tid" "train_id g2 = tid"
      "seat_number g1 = seat" "seat_number g2 = seat"
    by (simp_all add: g1_def g2_def db1 insert_booking_row)
  have rows: "bookings db2 = bookings db @ [g1, g2]"
    by (simp add: db2 db1 g1_def g2_def insert_booking_bookings)
  from first second fields rows show ?thesis by blast
qed

theorem same_seat_booked_twice_witness:
  "no_faults ok_env \<and> select_train db_T2 2 = Some train_T2
   \<and> count_bookings db_T2 2 + 2 \<le> total_seats train_T2
   \<and> book_seat ok_env db_T2 7 2 5 = (Inr (''Booking successful'', booking_1), db_T2_one)
   \<and> book_seat ok_env db_T2_one 8 2 5 = (Inr (''Booking successful'', booking_2), db_T2_full)
   \<and> bookings db_T2_full = bookings db_T2 @ [booking_1, booking_2]
   \<and> b_id booking_1 \<noteq> b_id booking_2
   \<and> train_id booking_1 = train_id booking_2 \<and> seat_number booking_1 = seat_number booking_2"
  using same_seat_booked_twice [OF no_faults_ok_env no_faults_ok_env select_train_db_T2 _
      book_seat_db_T2 book_seat_db_T2_one]
    book_seat_db_T2 book_seat_db_T2_one
  by (simp add: train_T2_def)

section \<open>The read queries\<close>

subsection \<open>The booking query\<close>

lemma join_trains_fst: "r \<in> set (join_trains bs ts) \<Longrightarrow> fst r \<in> set bs"
  by (auto simp: join_trains_def)

lemma booking_query_none:
  assumes "\<forall>b\<in>set (bookings db). b_id b = booking_id \<longrightarrow> user_id b \<noteq> uid"
  shows "booking_query db booking_id uid = None"
proof -
  have "filter (\<lambda>r. b_id (fst r) = booking_id \<and> user_id (fst r) = uid)
          (join_trains (bookings db) (trains db)) = []"
    using assms by (auto simp: filter_empty_conv dest: join_trains_fst)
  then show ?thesis by (simp add: booking_query_def)
qed

lemma find_filter_Cons: "find P xs = Some x \<Longrightarrow> \<exists>ys. filter P xs = x # ys"
  by (induction xs) (auto split: if_splits)

lemma join_trains_append:
  "join_trains (bs @ cs) ts = join_trains bs ts @ join_trains cs ts"
  by (simp add: join_trains_def)

lemma booking_query_new_row:
  assumes "ids_from_sequence db" "select_train db tid = Some t"
  shows "booking_query (snd (insert_booking env db uid tid seat))
           (b_id (fst (insert_booking env db uid tid seat))) uid
         = Some \<lparr>details_booking = fst (insert_booking env db uid tid seat),
                 details_train_number = train_number t, details_source = source t,
                 details_destination = destination t\<rparr>"
proof -
  let ?g = "fst (insert_booking env db uid tid seat)"
  let ?c = "\<lambda>r. b_id (fst r) = b_id ?g \<and> user_id (fst r) = uid"
  have old: "filter ?c (join_trains (bookings db) (trains db)) = []"
    using assms(1)
    by (auto simp: filter_empty_conv ids_from_sequence_def list_all_iff insert_booking_row
             dest!: join_trains_fst)
  have eq: "(\<lambda>t. tid = t_id t) = (\<lambda>t. t_id t = tid)" by auto
  from assms(2) have "find (\<lambda>t. t_id t = tid) (trains db) = Some t"
    by (simp add: select_train_def)
  from find_filter_Cons [OF this]
  obtain ys where ys: "filter (\<lambda>t. t_id t = tid) (trains db) = t # ys" by blast
  have new: "filter ?c (join_trains [?g] (trains db)) = (?g, t) # map (\<lambda>t. (?g, t)) ys"
    by (simp add: join_trains_def insert_booking_row eq ys filter_map o_def)
  show ?thesis
    by (simp add: booking_query_def insert_booking_bookings join_trains_append old new)
qed

subsection \<open>The availability query in closed form\<close>

text \<open>
  With \<open>trains.id\<close> a key, the left join followed by \<open>GROUP BY t.id\<close> yields one row per
  train on the route, holding the train and its seats minus the bookings counted for it.
\<close>

lemma joined_rows_fst: "r \<in> set (joined_rows bs t) \<Longrightarrow> fst r = t"
  by (auto simp: joined_rows_def split: list.splits)

lemma joined_rows_not_Nil [simp]: "joined_rows bs t \<noteq> []"
  by (simp add: joined_rows_def split: list.splits)

lemma count_b_id_joined_rows:
  "count_b_id (joined_rows bs t) = int (length (filter (\<lambda>b. train_id b = t_id t) bs))"
proof -
  have eq: "(\<lambda>b. t_id t = train_id b) = (\<lambda>b. train_id b = t_id t)" by auto
  show ?thesis
    by (cases "filter (\<lambda>b. train_id b = t_id t) bs")
       (simp_all add: count_b_id_def joined_rows_def eq)
qed

lemma filter_joined_rows:
  "filter (\<lambda>r. Q (fst r)) (joined_rows bs t) = (if Q t then joined_rows bs t else [])"
  by (auto simp: filter_empty_conv filter_id_conv dest: joined_rows_fst)

lemma filter_left_join:
  "filter (\<lambda>r. Q (fst r)) (concat (map (joined_rows bs) ts))
     = concat (map (joined_rows bs) (filter Q ts))"
  by (induction ts) (simp_all add: filter_joined_rows)

lemma filter_key_singleton:
  "distinct (map t_id ts) \<Longrightarrow> t \<in> set ts \<Longrightarrow> filter (\<lambda>x. t_id x = t_id t) ts = [t]"
proof (induction ts)
  case Nil
  then show ?case by simp
next
  case (Cons x xs)
  show ?case
  proof (cases "x = t")
    case True
    with Cons.prems have "\<forall>y\<in>set xs. t_id y \<noteq> t_id t" by (auto simp: image_iff)
    then have "filter (\<lambda>x. t_id x = t_id t) xs = []" by (simp add: filter_empty_conv)
    with True show ?thesis by simp
  next
    case False
    with Cons.prems have "t \<in> set xs" "t_id x \<noteq> t_id t" by auto
    with Cons show ?thesis by simp
  qed
qed

lemma group_of_train:
  assumes "distinct (map t_id ts)" "t \<in> set ts"
  shows "filter (\<lambda>r. t_id (fst r) = t_id t) (concat (map (joined_rows bs) ts)) = joined_rows bs t"
  using filter_left_join [of "\<lambda>x. t_id x = t_id t" bs ts] filter_key_singleton [OF assms]
  by simp

lemma remdups_block:
  "xs \<noteq> [] \<Longrightarrow> \<forall>x\<in>set xs. x = k \<Longrightarrow> k \<notin> set ys \<Longrightarrow> remdups (xs @ ys) = k # remdups ys"
proof (induction xs)
  case Nil
  then show ?case by simp
next
  case (Cons x xs)
  then show ?case by (cases xs) auto
qed

lemma keys_of_left_join:
  "distinct (map t_id ts) \<Longrightarrow>
   remdups (map (\<lambda>r. t_id (fst r)) (concat (map (joined_rows bs) ts))) = map t_id ts"
proof (induction ts)
  case Nil
  then show ?case by simp
next
  case (Cons t ts)
  have notin: "t_id t \<notin> set (map (\<lambda>r. t_id (fst r)) (concat (map (joined_rows bs) ts)))"
    using Cons.prems by (auto dest!: joined_rows_fst)
  have blk: "\<forall>x\<in>set (map (\<lambda>r. t_id (fst r)) (joined_rows bs t)). x = t_id t"
    by (auto dest: joined_rows_fst)
  have "remdups (map (\<lambda>r. t_id (fst r)) (joined_rows bs t)
          @ map (\<lambda>r. t_id (fst r)) (concat (map (joined_rows bs) ts)))
        = t_id t # remdups (map (\<lambda>r. t_id (fst r)) (concat (map (joined_rows bs) ts)))"
    using blk notin by (intro remdups_block) simp_all
  with Cons show ?case by simp
qed

lemma group_by_left_join:
  assumes "distinct (map t_id ts)"
  shows "group_by_t_id (concat (map (joined_rows bs) ts))
     = map (\<lambda>t. \<lparr>row_train = t,
                 available_seats = total_seats t
                   - int (length (filter (\<lambda>b. train_id b = t_id t) bs))\<rparr>) ts"
proof -
  have hd_row: "fst (hd (joined_rows bs t)) = t" for t
    using joined_rows_fst [of "hd (joined_rows bs t)" bs t] by simp
  show ?thesis
    unfolding group_by_t_id_def keys_of_left_join [OF assms] map_map
    by (rule map_cong [OF refl])
       (simp add: group_of_train [OF assms] hd_row count_b_id_joined_rows Let_def)
qed

lemma availability_query_rows:
  assumes "unique_train_ids db"
  shows "availability_query db src dst
     = map (\<lambda>t. \<lparr>row_train = t, available_seats = total_seats t - count_bookings db (t_id t)\<rparr>)
         (filter (\<lambda>t. source t = src \<and> destination t = dst) (trains db))"
proof -
  have "distinct (map t_id (filter (\<lambda>t. source t = src \<and> destination t = dst) (trains db)))"
    using assms by (simp add: unique_train_ids_def distinct_map_filter)
  then show ?thesis
    by (simp add: availability_query_def left_join_bookings_def count_bookings_def
        filter_left_join [of "\<lambda>t. source t = src \<and> destination t = dst"]
        group_by_left_join)
qed

lemma availability_query_no_match:
  assumes "\<forall>t\<in>set (trains db). \<not> (source t = src \<and> destination t = dst)"
  shows "availability_query db src dst = []"
proof -
  have "filter (\<lambda>t. source t = src \<and> destination t = dst) (trains db) = []"
    using assms by (simp add: filter_empty_conv)
  then show ?thesis
    by (simp add: availability_query_def left_join_bookings_def group_by_t_id_def
        filter_left_join [of "\<lambda>t. source t = src \<and> destination t = dst"])
qed

lemma get_seat_availability_ok:
  "connect_error env = None \<Longrightarrow> execute_error env 0 = None \<Longrightarrow>
   get_seat_availability env db src dst = Inr (availability_query db src dst)"
  by (simp add: get_seat_availability_def get_db_connection_def)

subsection \<open>The concrete stores, queried\<close>

lemma ok_env_connect [simp]: "connect_error ok_env = None"
  by (simp add: ok_env_def)

lemma ok_env_execute [simp]: "execute_error ok_env n = None"
  by (simp add: ok_env_def)

lemma availability_db_T2_one:
  "get_seat_availability ok_env db_T2_one ''Pune'' ''Delhi''
     = Inr [\<lparr>row_train = train_T2, available_seats = 1\<rparr>]"
  by (simp add: get_seat_availability_ok availability_query_def left_join_bookings_def
      joined_rows_def group_by_t_id_def count_b_id_def Let_def
      db_T2_one_def train_T2_def booking_1_def)

lemma availability_db_T2_full:
  "get_seat_availability ok_env db_T2_full ''Pune'' ''Delhi''
     = Inr [\<lparr>row_train = train_T2, available_seats = 0\<rparr>]"
  by (simp add: get_seat_availability_ok availability_query_def left_join_bookings_def
      joined_rows_def group_by_t_id_def count_b_id_def Let_def
      db_T2_full_def train_T2_def booking_1_def booking_2_def)

lemma ids_from_sequence_db_T2_one: "ids_from_sequence db_T2_one"
  by (simp add: ids_from_sequence_def db_T2_one_def booking_1_def)

section \<open>Availability\<close>

text \<open>
  C2. For every train of the store (with \<open>trains.id\<close> a key and a store that answers),
  the availability query on the train's route returns a row for that train whose
  \<open>available_seats\<close> is its \<open>total_seats\<close> minus the number of bookings recorded for it,
  and no row for that train says otherwise; with no booking the row holds the full
  \<open>total_seats\<close>.
\<close>

theorem availability_is_seats_minus_bookings:
  assumes "unique_train_ids db" "connect_error env = None" "execute_error env 0 = None"
    and "t \<in> set (trains db)"
  shows "\<exists>rows. get_seat_availability env db (source t) (destination t) = Inr rows
     \<and> \<lparr>row_train = t, available_seats = total_seats t - count_bookings db (t_id t)\<rparr> \<in> set rows
     \<and> (\<forall>row\<in>set rows. t_id (row_train row) = t_id t \<longrightarrow>
           available_seats row = total_seats t - count_bookings db (t_id t))
     \<and> (count_bookings db (t_id t) = 0 \<longrightarrow>
           \<lparr>row_train = t, available_seats = total_seats t\<rparr> \<in> set rows)"
proof -
  let ?rows = "availability_query db (source t) (destination t)"
  have res: "get_seat_availability env db (source t) (destination t) = Inr ?rows"
    using assms(2,3) by (rule get_seat_availability_ok)
  have mem: "\<lparr>row_train = t, available_seats = total_seats t - count_bookings db (t_id t)\<rparr>
               \<in> set ?rows"
    using assms(4) by (auto simp: availability_query_rows [OF assms(1)])
  have uniq: "available_seats row = total_seats t - count_bookings db (t_id t)"
    if "row \<in> set ?rows" "t_id (row_train row) = t_id t" for row
  proof -
    from that(1) obtain t' where t': "t' \<in> set (trains db)"
      and row: "row = \<lparr>row_train = t', available_seats = total_seats t' - count_bookings db (t_id t')\<rparr>"
      by (auto simp: availability_query_rows [OF assms(1)])
    from that(2) row have "t_id t' = t_id t" by simp
    with t' assms(1,4) have "t' = t"
      using select_train_member select_train_unique by blast
    with row show ?thesis by simp
  qed
  from res mem uniq show ?thesis by auto
qed

theorem availability_is_seats_minus_bookings_witness:
  "unique_train_ids db_T2_one \<and> train_T2 \<in> set (trains db_T2_one)
   \<and> get_seat_availability ok_env db_T2_one (source train_T2) (destination train_T2)
       = Inr [\<lparr>row_train = train_T2, available_seats = 1\<rparr>]
   \<and> total_seats train_T2 - count_bookings db_T2_one (t_id train_T2) = 1"
proof -
  have t: "train_T2 \<in> set (trains db_T2_one)" by (simp add: db_T2_one_def)
  have r: "source train_T2 = ''Pune''" "destination train_T2 = ''Delhi''"
    by (simp_all add: train_T2_def)
  from availability_is_seats_minus_bookings
         [OF unique_train_ids_db_T2_one ok_env_connect ok_env_execute t]
  show ?thesis
    using t by (simp add: r availability_db_T2_one)
qed

text \<open>
  C6 (as amended). The availability operation takes a route, a source and a destination;
  when no train of the store runs on that route, and the store answers, it succeeds with
  the empty list of trains.
\<close>

theorem availability_without_match_is_empty:
  assumes "connect_error env = None" "execute_error env 0 = None"
    and "\<forall>t\<in>set (trains db). \<not> (source t = src \<and> destination t = dst)"
  shows "get_seat_availability env db src dst = Inr []"
  using assms by (simp add: get_seat_availability_ok availability_query_no_match)

theorem availability_without_match_is_empty_witness:
  "trains db_T2_one = [train_T2] \<and> source train_T2 = ''Pune''
   \<and> get_seat_availability ok_env db_T2_one ''Delhi'' ''Pune'' = Inr []"
  using availability_without_match_is_empty [of ok_env db_T2_one "''Delhi''" "''Pune''"]
  by (simp add: db_T2_one_def train_T2_def)

text \<open>
  C6 (as stated) fails: the store holds the single train \<open>T2\<close> to Delhi, and asking for the
  route Pune to Goa, on which no train runs, succeeds with an empty result and raises
  nothing.
\<close>

theorem availability_unknown_route_succeeds:
  "trains db_T2 = [train_T2] \<and> destination train_T2 \<noteq> ''Goa''
   \<and> get_seat_availability ok_env db_T2 ''Pune'' ''Goa'' = Inr []"
  by (simp add: get_seat_availability_ok availability_query_def left_join_bookings_def
      joined_rows_def group_by_t_id_def db_T2_def train_T2_def)

section \<open>Ownership of a booking\<close>

text \<open>
  C7. When the store answers, and every booking carrying the requested identifier belongs
  to another user (in particular when there is no booking with that identifier at all),
  \<open>get_booking_details\<close> raises \<open>HTTPException 404 Booking not found\<close>: the same status
  and the same detail in both cases.
\<close>

theorem other_owners_booking_not_found:
  assumes "connect_error env = None" "execute_error env 0 = None"
    and "\<forall>b\<in>set (bookings db). b_id b = booking_id \<longrightarrow> user_id b \<noteq> uid"
  shows "get_booking_details env db booking_id uid = Inl (HTTPException 404 ''Booking not found'')"
  using assms
  by (simp add: get_booking_details_def get_db_connection_def booking_query_none)

theorem other_owners_booking_not_found_witness:
  "bookings db_T2_one = [booking_1] \<and> b_id booking_1 = 1 \<and> user_id booking_1 = 7
   \<and> get_booking_details ok_env db_T2_one 99 7 = Inl (HTTPException 404 ''Booking not found'')
   \<and> get_booking_details ok_env db_T2_one 1 8 = Inl (HTTPException 404 ''Booking not found'')
   \<and> get_booking_details ok_env db_T2_one 1 8 = get_booking_details ok_env db_T2_one 99 7"
  using other_owners_booking_not_found [of ok_env db_T2_one 99 7]
    other_owners_booking_not_found [of ok_env db_T2_one 1 8]
  by (simp add: db_T2_one_def booking_1_def)

section \<open>A committed booking is visible\<close>

text \<open>
  C8. After a successful \<open>book_seat\<close> for user \<open>uid\<close> on train \<open>tid\<close> that returned the
  booking \<open>g\<close> (in a store whose booking identifiers all came from the sequence, with
  \<open>trains.id\<close> a key), a later \<open>get_booking_details\<close> for \<open>g\<close>'s identifier and \<open>uid\<close>
  returns \<open>g\<close> joined with the train's number, source and destination, and the availability
  query on the train's route shows for that train one seat less than before the call.
\<close>

theorem committed_booking_is_visible:
  assumes "unique_train_ids db" "ids_from_sequence db"
    and "book_seat env db uid tid seat = (Inr (m, g), db')"
    and "connect_error env' = None" "execute_error env' 0 = None"
  shows "\<exists>t. select_train db tid = Some t
     \<and> user_id g = uid \<and> train_id g = tid \<and> seat_number g = seat
     \<and> get_booking_details env' db' (b_id g) uid
         = Inr \<lparr>details_booking = g, details_train_number = train_number t,
                details_source = source t, details_destination = destination t\<rparr>
     \<and> get_seat_availability env' db (source t) (destination t)
         = Inr (availability_query db (source t) (destination t))
     \<and> get_seat_availability env' db' (source t) (destination t)
         = Inr (availability_query db' (source t) (destination t))
     \<and> \<lparr>row_train = t, available_seats = total_seats t - count_bookings db tid\<rparr>
         \<in> set (availability_query db (source t) (destination t))
     \<and> \<lparr>row_train = t, available_seats = total_seats t - count_bookings db tid - 1\<rparr>
         \<in> set (availability_query db' (source t) (destination t))
     \<and> count_bookings db' tid = count_bookings db tid + 1"
proof -
  from book_seat_success [OF assms(3)] obtain t where
    sel: "select_train db tid = Some t"
    and g: "g = fst (insert_booking env db uid tid seat)"
    and db': "db' = snd (insert_booking env db uid tid seat)" by blast
  from sel have tin: "t \<in> set (trains db)" and tid: "t_id t = tid"
    by (auto simp: select_train_def find_Some_iff)
  have fields: "user_id g = uid" "train_id g = tid" "seat_number g = seat"
    by (simp_all add: g insert_booking_row)
  have details: "get_booking_details env' db' (b_id g) uid
         = Inr \<lparr>details_booking = g, details_train_number = train_number t,
                details_source = source t, details_destination = destination t\<rparr>"
    using assms(4,5) booking_query_new_row [OF assms(2) sel, of env uid seat]
    by (simp add: get_booking_details_def get_db_connection_def g db')
  have u': "unique_train_ids db'"
    using assms(1) by (simp add: unique_train_ids_def db')
  have cnt: "count_bookings db' tid = count_bookings db tid + 1"
    by (simp add: db' insert_booking_count)
  have before: "\<lparr>row_train = t, available_seats = total_seats t - count_bookings db tid\<rparr>
         \<in> set (availability_query db (source t) (destination t))"
    using tin tid by (auto simp: availability_query_rows [OF assms(1)])
  have "t \<in> set (trains db')" using tin by (simp add: db')
  then have after: "\<lparr>row_train = t, available_seats = total_seats t - count_bookings db tid - 1\<rparr>
         \<in> set (availability_query db' (source t) (destination t))"
    using tid cnt by (auto simp: availability_query_rows [OF u'] image_iff intro!: bexI [of _ t])
  from sel fields details before after cnt
    get_seat_availability_ok [OF assms(4,5), of db] get_seat_availability_ok [OF assms(4,5), of db']
  show ?thesis by simp
qed

theorem committed_booking_is_visible_witness:
  "unique_train_ids db_T2_one \<and> ids_from_sequence db_T2_one
   \<and> book_seat ok_env db_T2_one 8 2 5 = (Inr (''Booking successful'', booking_2), db_T2_full)
   \<and> get_booking_details ok_env db_T2_full (b_id booking_2) 8
       = Inr \<lparr>details_booking = booking_2, details_train_number = ''T2'',
              details_source = ''Pune'', details_destination = ''Delhi''\<rparr>
   \<and> get_seat_availability ok_env db_T2_one ''Pune'' ''Delhi''
       = Inr [\<lparr>row_train = train_T2, available_seats = 1\<rparr>]
   \<and> get_seat_availability ok_env db_T2_full ''Pune'' ''Delhi''
       = Inr [\<lparr>row_train = train_T2, available_seats = 0\<rparr>]"
proof -
  have b: "b_id booking_2 = 2" by (simp add: booking_2_def)
  note run = committed_booking_is_visible
      [OF unique_train_ids_db_T2_one ids_from_sequence_db_T2_one book_seat_db_T2_one
          ok_env_connect ok_env_execute]
  have "get_booking_details ok_env db_T2_full (b_id booking_2) 8
       = Inr \<lparr>details_booking = booking_2, details_train_number = ''T2'',
              details_source = ''Pune'', details_destination = ''Delhi''\<rparr>"
    using run by (simp add: train_T2_def)
  then show ?thesis
    by (simp add: book_seat_db_T2_one ids_from_sequence_db_T2_one
        availability_db_T2_one availability_db_T2_full)
qed

end
